theory Spec2Isabelle
  imports Main
begin

section \<open>Values, exceptions and the external client library\<close>

text \<open>
  The dashboard keeps Python values in three key-value stores. The values that can be
  written as JSON (and so can travel to the browser and back) are modelled by \<open>json\<close>:
  \<open>None\<close>, booleans, integers, strings, lists and dictionaries. A dictionary is an
  association list in insertion order with distinct keys, as a Python \<open>dict\<close> is;
  Python compares dictionaries regardless of order, so no theorem below rests on two
  \<open>JObj\<close> values being different. Floating-point numbers and strings with characters
  beyond one byte are not values of the type.
\<close>

datatype json =
    JNull
  | JBool bool
  | JInt int
  | JStr string
  | JArr "json list"
  | JObj "(string \<times> json) list"

text \<open>
  The Python exceptions the program raises or handles. \<open>OtherException\<close> stands for
  every exception class the handlers do not name (a rejected password, a network error).
  A function of the model that reads browser text returns \<open>error + 'a\<close>: either a
  raised exception, or \<open>Unmodelled\<close> where the model does not determine what the
  program gets (the cases are listed in the next sections). \<open>Unmodelled\<close> is not an
  exception: no handler of the model catches it, and no theorem says what the program
  does there.
\<close>

datatype exn = TokenVerificationException | KeyError | TypeError | JSONDecodeError | OtherException

datatype error = Raised exn | Unmodelled

text \<open>
  The two classes of the client library, seen through the attributes the program reads:
  \<^verbatim>\<open>user.get_tokens()\<close>, \<^verbatim>\<open>user.device_key\<close>, \<^verbatim>\<open>otf.user\<close> and
  \<^verbatim>\<open>otf.get_hydration_dict()\<close>.
\<close>

record OtfUser =
  get_tokens :: json
  device_key :: json

record Otf =
  user :: OtfUser
  get_hydration_dict :: json

text \<open>
  Tab-scoped storage lives in server memory and holds arbitrary objects; user-scoped
  storage is persisted as JSON.
\<close>

datatype pyval = Json json | UserObj OtfUser | OtfObj Otf

text \<open>Python truthiness, as \<^verbatim>\<open>if not x\<close> and \<^verbatim>\<open>if user := ...\<close> test it.\<close>

fun truthy_json :: "json \<Rightarrow> bool" where
  "truthy_json JNull = False"
| "truthy_json (JBool b) = b"
| "truthy_json (JInt n) = (n \<noteq> 0)"
| "truthy_json (JStr s) = (s \<noteq> [])"
| "truthy_json (JArr xs) = (xs \<noteq> [])"
| "truthy_json (JObj ps) = (ps \<noteq> [])"

fun truthy :: "pyval \<Rightarrow> bool" where
  "truthy (Json v) = truthy_json v"
| "truthy (UserObj u) = True"
| "truthy (OtfObj otf) = True"

text \<open>
  The calls into the client library are network calls whose outcome the program does not
  control. They are parameters of the model; each field is the whole call expression of
  the source, argument unpacking included:
  \<^item> \<open>login u p\<close> is \<^verbatim>\<open>OtfUser.login(username.value, password.value)\<close>;
  \<^item> \<open>from_token t d\<close> is \<^verbatim>\<open>OtfUser.from_token(**t, device_key=d)\<close>;
  \<^item> \<open>hydrate h d\<close> is \<^verbatim>\<open>Otf.hydrate(**h, device_key=d)\<close>;
  \<^item> \<open>create u\<close> is \<^verbatim>\<open>await Otf.create(user=u)\<close>.
\<close>

record otf_api =
  login :: "string \<Rightarrow> string \<Rightarrow> exn + OtfUser"
  from_token :: "json \<Rightarrow> json \<Rightarrow> exn + OtfUser"
  hydrate :: "json \<Rightarrow> pyval \<Rightarrow> exn + Otf"
  create :: "pyval \<Rightarrow> exn + Otf"

text \<open>
  \<^verbatim>\<open>await x\<close> on a value that is not awaitable raises \<open>TypeError\<close>. The functions
  \<^verbatim>\<open>add_user_to_storage\<close> and \<^verbatim>\<open>logout\<close> are plain \<^verbatim>\<open>def\<close>s that return
  \<open>None\<close>, and the source awaits both results.
\<close>

fun await_value :: "json \<Rightarrow> exn + json" where
  "await_value v = Inl TypeError"

section \<open>Text in the browser: JavaScript strings and \<open>json.loads\<close>\<close>

text \<open>
  \<^verbatim>\<open>LocalStorage.set_item(key, value)\<close> runs the JavaScript statement
  \<^verbatim>\<open>localStorage.setItem("key", <json.dumps(value)>)\<close>. The JSON text of a value is a
  JavaScript literal of the same value, and \<^verbatim>\<open>setItem\<close> stores the string form of its
  argument. \<open>js_string\<close> is that string form: a string is stored as it is (without
  quotes), \<open>null\<close> and booleans by their names, an array as its elements joined by
  commas (with \<open>null\<close> elements empty), a plain object as \<^verbatim>\<open>[object Object]\<close>.

  Where the model does not say what the browser ends up with, \<open>js_string\<close> is \<open>None\<close>:
  \<^item> JavaScript numbers are doubles, so an integer is stored by its decimal digits only
    below \<open>2 ^ 53\<close>;
  \<^item> an object literal with a key \<^verbatim>\<open>toString\<close> has no callable conversion (the
    statement throws and stores nothing), and one with a key \<^verbatim>\<open>__proto__\<close> takes its
    conversion from another object;
  \<^item> an array with such an element.

  The browser's quota for stored text is not modelled.
\<close>

fun digits :: "nat \<Rightarrow> string" where
  "digits n = (if n < 10 then [''0123456789'' ! n]
               else digits (n div 10) @ [''0123456789'' ! (n mod 10)])"

declare digits.simps [simp del]

fun join :: "string \<Rightarrow> string list \<Rightarrow> string" where
  "join sep [] = ''''"
| "join sep [t] = t"
| "join sep (t # ts) = t @ sep @ join sep ts"

fun js_string :: "json \<Rightarrow> string option" where
  "js_string JNull = Some ''null''"
| "js_string (JBool b) = Some (if b then ''true'' else ''false'')"
| "js_string (JInt n) =
     (if \<bar>n\<bar> < 2 ^ 53 then Some ((if n < 0 then ''-'' else '''') @ digits (nat \<bar>n\<bar>)) else None)"
| "js_string (JStr s) = Some s"
| "js_string (JArr xs) =
     map_option (join '','') (those (map (\<lambda>x. if x = JNull then Some '''' else js_string x) xs))"
| "js_string (JObj ps) =
     (if ''toString'' \<in> set (map fst ps) \<or> ''__proto__'' \<in> set (map fst ps) then None
      else Some ''[object Object]'')"

text \<open>
  The key is written between double quotes into the JavaScript source. It names the entry
  it spells only if it has no double quote, backslash or line break; for any other key
  the model does not say what the statement does.
\<close>

definition plain_key :: "string \<Rightarrow> bool" where
  "plain_key key =
     list_all (\<lambda>c. c \<noteq> CHR 0x22 \<and> c \<noteq> CHR 0x5C \<and> c \<noteq> CHR 0x0A \<and> c \<noteq> CHR 0x0D) key"

text \<open>
  \<^verbatim>\<open>json.loads\<close> on a string. The text is read left to right, one character at a time;
  each completed token is handed to a push-down recogniser of the JSON grammar at once.
  Whitespace (space, tab, newline, carriage return) may stand between any two tokens and
  around the document. Inside a string a control character is refused (strict mode) and
  the escapes are those of JSON. A dictionary is built key by key: a repeated key keeps
  its first position and takes the last value.

  Every text that Python refuses is refused here, with \<open>JSONDecodeError\<close>. Numbers
  with a fraction or an exponent, \<^verbatim>\<open>NaN\<close>, \<^verbatim>\<open>Infinity\<close> and \<^verbatim>\<open>-Infinity\<close> are read
  as Python reads them, but their values are floats, and a \<^verbatim>\<open>\uXXXX\<close> escape from
  \<^verbatim>\<open>\u0100\<close> on is a character that a \<open>string\<close> cannot hold: such a token is
  \<^emph>\<open>opaque\<close>. The reader goes on over an opaque token (with \<open>None\<close> in place of a
  float), so that an error further on is still found; a text that is accepted with an
  opaque token in it is answered \<open>Unmodelled\<close>. The interpreter's resource limits
  (recursion depth, the digit limit of \<^verbatim>\<open>int\<close>) are not modelled.
\<close>

fun dict_set :: "string \<Rightarrow> json \<Rightarrow> (string \<times> json) list \<Rightarrow> (string \<times> json) list" where
  "dict_set k v [] = [(k, v)]"
| "dict_set k v ((k', v') # ps) = (if k' = k then (k, v) # ps else (k', v') # dict_set k v ps)"

datatype token = TLBrace | TRBrace | TLBrack | TRBrack | TColon | TComma | TValue json

text \<open>
  The recogniser's stack: an array with its elements so far (latest first), an object
  with its pairs so far, or an object whose next value belongs to the given key.
\<close>

datatype frame =
    FArr "json list"
  | FObj "(string \<times> json) list"
  | FKey "(string \<times> json) list" string

datatype expect =
    ExpValue
  | ExpValueOrClose
  | ExpKeyOrClose
  | ExpKey
  | ExpColon
  | ExpCommaOrClose
  | ExpEnd json

type_synonym pstate = "frame list \<times> expect"

fun complete :: "json \<Rightarrow> frame list \<Rightarrow> pstate option" where
  "complete v [] = Some ([], ExpEnd v)"
| "complete v (FArr xs # fs) = Some (FArr (v # xs) # fs, ExpCommaOrClose)"
| "complete v (FKey ps k # fs) = Some (FObj (dict_set k v ps) # fs, ExpCommaOrClose)"
| "complete v (FObj ps # fs) = None"

fun value_start :: "token \<Rightarrow> frame list \<Rightarrow> pstate option" where
  "value_start (TValue v) fs = complete v fs"
| "value_start TLBrack fs = Some (FArr [] # fs, ExpValueOrClose)"
| "value_start TLBrace fs = Some (FObj [] # fs, ExpKeyOrClose)"
| "value_start _ fs = None"

fun close_arr :: "frame list \<Rightarrow> pstate option" where
  "close_arr (FArr xs # fs) = complete (JArr (rev xs)) fs"
| "close_arr _ = None"

fun close_obj :: "frame list \<Rightarrow> pstate option" where
  "close_obj (FObj ps # fs) = complete (JObj ps) fs"
| "close_obj _ = None"

fun key_start :: "token \<Rightarrow> frame list \<Rightarrow> pstate option" where
  "key_start (TValue (JStr k)) (FObj ps # fs) = Some (FKey ps k # fs, ExpColon)"
| "key_start _ _ = None"

fun feed :: "token \<Rightarrow> pstate \<Rightarrow> pstate option" where
  "feed t (fs, ExpValue) = value_start t fs"
| "feed t (fs, ExpValueOrClose) = (if t = TRBrack then close_arr fs else value_start t fs)"
| "feed t (fs, ExpKeyOrClose) = (if t = TRBrace then close_obj fs else key_start t fs)"
| "feed t (fs, ExpKey) = key_start t fs"
| "feed t (fs, ExpColon) = (if t = TColon then Some (fs, ExpValue) else None)"
| "feed t (fs, ExpCommaOrClose) =
     (if t = TComma then
        (case fs of FArr xs # fs' \<Rightarrow> Some (fs, ExpValue)
                  | FObj ps # fs' \<Rightarrow> Some (fs, ExpKey)
                  | _ \<Rightarrow> None)
      else if t = TRBrack then close_arr fs
      else if t = TRBrace then close_obj fs
      else None)"
| "feed t (fs, ExpEnd v) = None"

text \<open>
  The reader's state between characters:
  \<^item> \<open>LIdle\<close>: between tokens;
  \<^item> \<open>LStr\<close>: inside a string (characters so far, latest first, and whether a character
    beyond one byte was met); \<open>LEsc\<close>: just after a backslash; \<open>LHex\<close>: inside a
    \<^verbatim>\<open>\u\<close> escape (the hexadecimal digits read so far);
  \<^item> \<open>LMinus\<close>: after a minus sign; \<open>LZero\<close>: after a leading zero; \<open>LDigits\<close>:
    inside the digits of an integer (sign and value so far);
  \<^item> \<open>LDot\<close>: after the point of a fraction, where a digit must follow; \<open>LFrac\<close>:
    inside the digits of a fraction; \<open>LE\<close>: after the \<^verbatim>\<open>e\<close> of an exponent;
    \<open>LESign\<close>: after its sign; \<open>LExp\<close>: inside its digits;
  \<^item> \<open>LWord\<close>: inside one of the words \<^verbatim>\<open>null\<close>, \<^verbatim>\<open>true\<close>, \<^verbatim>\<open>false\<close>,
    \<^verbatim>\<open>NaN\<close>, \<^verbatim>\<open>Infinity\<close> (letters still expected, the value, and whether it is
    opaque).

  A number's point or exponent that is not followed by its digits ends the number before
  it in Python, and what follows is then refused; here the point or exponent is refused
  at once.
\<close>

datatype lexst =
    LIdle
  | LStr string bool
  | LEsc string bool
  | LHex string bool "nat list"
  | LMinus
  | LZero
  | LDigits bool nat
  | LDot
  | LFrac
  | LE
  | LESign
  | LExp
  | LWord string json bool

definition is_digit :: "char \<Rightarrow> bool" where
  "is_digit c = (c \<in> set ''0123456789'')"

definition digit_val :: "char \<Rightarrow> nat" where
  "digit_val c = of_char c - 48"

definition is_hex :: "char \<Rightarrow> bool" where
  "is_hex c = (c \<in> set ''0123456789abcdefABCDEF'')"

definition hex_val :: "char \<Rightarrow> nat" where
  "hex_val c =
     (if is_digit c then digit_val c
      else if c \<in> set ''abcdef'' then of_char c - 87
      else of_char c - 55)"

definition is_ws :: "char \<Rightarrow> bool" where
  "is_ws c = (c = CHR '' '' \<or> c = CHR 0x09 \<or> c = CHR 0x0A \<or> c = CHR 0x0D)"

text \<open>
  A step of the reader gives the new states and says whether it completed an opaque
  token. \<open>emit\<close> hands a completed token to the recogniser.
\<close>

type_synonym lexed = "bool \<times> lexst \<times> pstate"

definition emit :: "bool \<Rightarrow> token \<Rightarrow> pstate \<Rightarrow> error + lexed" where
  "emit opaque t ps =
     (case feed t ps of
        None \<Rightarrow> Inl (Raised JSONDecodeError)
      | Some ps' \<Rightarrow> Inr (opaque, LIdle, ps'))"

definition idle_char :: "char \<Rightarrow> pstate \<Rightarrow> error + lexed" where
  "idle_char c ps =
    (if is_ws c then Inr (False, LIdle, ps)
     else if c = CHR ''{'' then emit False TLBrace ps
     else if c = CHR ''}'' then emit False TRBrace ps
     else if c = CHR ''['' then emit False TLBrack ps
     else if c = CHR '']'' then emit False TRBrack ps
     else if c = CHR '':'' then emit False TColon ps
     else if c = CHR '','' then emit False TComma ps
     else if c = CHR 0x22 then Inr (False, LStr [] False, ps)
     else if c = CHR ''-'' then Inr (False, LMinus, ps)
     else if c = CHR ''0'' then Inr (False, LZero, ps)
     else if is_digit c then Inr (False, LDigits False (digit_val c), ps)
     else if c = CHR ''n'' then Inr (False, LWord ''ull'' JNull False, ps)
     else if c = CHR ''t'' then Inr (False, LWord ''rue'' (JBool True) False, ps)
     else if c = CHR ''f'' then Inr (False, LWord ''alse'' (JBool False) False, ps)
     else if c = CHR ''N'' then Inr (False, LWord ''aN'' JNull True, ps)
     else if c = CHR ''I'' then Inr (False, LWord ''nfinity'' JNull True, ps)
     else Inl (Raised JSONDecodeError))"

text \<open>
  The character after a number ends it: the number goes to the recogniser, and the
  character is read as one between tokens.
\<close>

definition end_token :: "bool \<Rightarrow> json \<Rightarrow> char \<Rightarrow> pstate \<Rightarrow> error + lexed" where
  "end_token opaque v c ps =
     (case feed (TValue v) ps of
        None \<Rightarrow> Inl (Raised JSONDecodeError)
      | Some ps' \<Rightarrow>
          (case idle_char c ps' of
             Inl e \<Rightarrow> Inl e
           | Inr (b, ls, ps'') \<Rightarrow> Inr (opaque \<or> b, ls, ps'')))"

definition after_integer :: "int \<Rightarrow> char \<Rightarrow> pstate \<Rightarrow> error + lexed" where
  "after_integer n c ps =
     (if c = CHR ''.'' then Inr (False, LDot, ps)
      else if c = CHR ''e'' \<or> c = CHR ''E'' then Inr (False, LE, ps)
      else end_token False (JInt n) c ps)"

fun lex_char :: "lexst \<Rightarrow> char \<Rightarrow> pstate \<Rightarrow> error + lexed" where
  "lex_char LIdle c ps = idle_char c ps"
| "lex_char (LStr acc wide) c ps =
    (if c = CHR 0x22 then emit wide (TValue (JStr (rev acc))) ps
     else if c = CHR 0x5C then Inr (False, LEsc acc wide, ps)
     else if of_char c < (32 :: nat) then Inl (Raised JSONDecodeError)
     else Inr (False, LStr (c # acc) wide, ps))"
| "lex_char (LEsc acc wide) c ps =
    (if c = CHR 0x22 \<or> c = CHR 0x5C \<or> c = CHR ''/'' then Inr (False, LStr (c # acc) wide, ps)
     else if c = CHR ''b'' then Inr (False, LStr (CHR 0x08 # acc) wide, ps)
     else if c = CHR ''f'' then Inr (False, LStr (CHR 0x0C # acc) wide, ps)
     else if c = CHR ''n'' then Inr (False, LStr (CHR 0x0A # acc) wide, ps)
     else if c = CHR ''r'' then Inr (False, LStr (CHR 0x0D # acc) wide, ps)
     else if c = CHR ''t'' then Inr (False, LStr (CHR 0x09 # acc) wide, ps)
     else if c = CHR ''u'' then Inr (False, LHex acc wide [], ps)
     else Inl (Raised JSONDecodeError))"
| "lex_char (LHex acc wide hs) c ps =
    (if \<not> is_hex c then Inl (Raised JSONDecodeError)
     else if length hs < 3 then Inr (False, LHex acc wide (hs @ [hex_val c]), ps)
     else
       (let code = foldl (\<lambda>a h. 16 * a + h) 0 (hs @ [hex_val c])
        in if code < 256 then Inr (False, LStr (char_of code # acc) wide, ps)
           else Inr (False, LStr acc True, ps)))"
| "lex_char LMinus c ps =
    (if c = CHR ''0'' then Inr (False, LZero, ps)
     else if is_digit c then Inr (False, LDigits True (digit_val c), ps)
     else if c = CHR ''I'' then Inr (False, LWord ''nfinity'' JNull True, ps)
     else Inl (Raised JSONDecodeError))"
| "lex_char LZero c ps =
    (if is_digit c then Inl (Raised JSONDecodeError) else after_integer 0 c ps)"
| "lex_char (LDigits neg n) c ps =
    (if is_digit c then Inr (False, LDigits neg (10 * n + digit_val c), ps)
     else after_integer (if neg then - int n else int n) c ps)"
| "lex_char LDot c ps =
    (if is_digit c then Inr (False, LFrac, ps) else Inl (Raised JSONDecodeError))"
| "lex_char LFrac c ps =
    (if is_digit c then Inr (False, LFrac, ps)
     else if c = CHR ''e'' \<or> c = CHR ''E'' then Inr (False, LE, ps)
     else end_token True JNull c ps)"
| "lex_char LE c ps =
    (if is_digit c then Inr (False, LExp, ps)
     else if c = CHR ''+'' \<or> c = CHR ''-'' then Inr (False, LESign, ps)
     else Inl (Raised JSONDecodeError))"
| "lex_char LESign c ps =
    (if is_digit c then Inr (False, LExp, ps) else Inl (Raised JSONDecodeError))"
| "lex_char LExp c ps =
    (if is_digit c then Inr (False, LExp, ps) else end_token True JNull c ps)"
| "lex_char (LWord w v opaque) c ps =
    (case w of
       [] \<Rightarrow> Inl (Raised JSONDecodeError)
     | x # w' \<Rightarrow>
         if c \<noteq> x then Inl (Raised JSONDecodeError)
         else if w' = [] then emit opaque (TValue v) ps
         else Inr (False, LWord w' v opaque, ps))"

text \<open>The end of the text: a number may end there; the document must be complete.\<close>

definition finish :: "bool \<Rightarrow> json \<Rightarrow> pstate \<Rightarrow> error + bool \<times> json" where
  "finish opaque v ps =
     (case feed (TValue v) ps of
        Some (fs, ExpEnd w) \<Rightarrow> Inr (opaque, w)
      | _ \<Rightarrow> Inl (Raised JSONDecodeError))"

fun lex_end :: "lexst \<Rightarrow> pstate \<Rightarrow> error + bool \<times> json" where
  "lex_end LIdle ps = (case ps of (fs, ExpEnd w) \<Rightarrow> Inr (False, w) | _ \<Rightarrow> Inl (Raised JSONDecodeError))"
| "lex_end LZero ps = finish False (JInt 0) ps"
| "lex_end (LDigits neg n) ps = finish False (JInt (if neg then - int n else int n)) ps"
| "lex_end LFrac ps = finish True JNull ps"
| "lex_end LExp ps = finish True JNull ps"
| "lex_end _ ps = Inl (Raised JSONDecodeError)"

fun scan :: "bool \<Rightarrow> lexst \<Rightarrow> pstate \<Rightarrow> string \<Rightarrow> error + json" where
  "scan opaque ls ps [] =
     (case lex_end ls ps of
        Inl e \<Rightarrow> Inl e
      | Inr (b, v) \<Rightarrow> if opaque \<or> b then Inl Unmodelled else Inr v)"
| "scan opaque ls ps (c # cs) =
     (case lex_char ls c ps of
        Inl e \<Rightarrow> Inl e
      | Inr (b, ls', ps') \<Rightarrow> scan (opaque \<or> b) ls' ps' cs)"

definition json_loads :: "string \<Rightarrow> error + json" where
  "json_loads s = scan False LIdle ([], ExpValue) s"

text \<open>
  \<^verbatim>\<open>json.loads(val)\<close> on whatever the browser returned: only a string is parsed, any
  other value raises \<open>TypeError\<close>.
\<close>

fun py_json_loads :: "json \<Rightarrow> error + json" where
  "py_json_loads (JStr t) = json_loads t"
| "py_json_loads _ = Inl (Raised TypeError)"

section \<open>The three storage tiers and the effects of the user interface\<close>

text \<open>
  The browser's \<^verbatim>\<open>localStorage\<close> holds text. \<open>Unknown_text\<close> marks an entry of
  which the model does not determine what the browser holds, if anything (see
  \<open>js_string\<close> and \<open>plain_key\<close>).
\<close>

datatype js_text = Text string | Unknown_text

text \<open>
  What the program does to the outside, in order: \<^verbatim>\<open>ui.notify(message, color=...)\<close>,
  \<^verbatim>\<open>ui.navigate.to(target)\<close>, and the calls into the client library.
\<close>

datatype event =
    Notify string string
  | NavigateTo json
  | Call_login string string
  | Call_from_token json json
  | Call_hydrate json pyval
  | Call_create pyval

text \<open>
  \<open>storage_user\<close> is \<^verbatim>\<open>app.storage.user\<close>, \<open>storage_tab\<close> is
  \<^verbatim>\<open>app.storage.tab\<close>, \<open>localStorage\<close> is the browser's store. The UI client is
  taken to be connected and to answer, as every handler first waits for it.
\<close>

record state =
  storage_user :: "string \<rightharpoonup> json"
  storage_tab :: "string \<rightharpoonup> pyval"
  localStorage :: "string \<rightharpoonup> js_text"
  events :: "event list"

definition record_event :: "event \<Rightarrow> state \<Rightarrow> state" where
  "record_event e st = st\<lparr>events := events st @ [e]\<rparr>"

definition notify :: "string \<Rightarrow> string \<Rightarrow> state \<Rightarrow> state" where
  "notify message color st = record_event (Notify message color) st"

definition navigate_to :: "json \<Rightarrow> state \<Rightarrow> state" where
  "navigate_to target st = record_event (NavigateTo target) st"

text \<open>The route the browser was last sent to, if any.\<close>

fun active_route :: "event list \<Rightarrow> json option" where
  "active_route [] = None"
| "active_route (e # es) =
     (case active_route es of
        Some p \<Rightarrow> Some p
      | None \<Rightarrow> (case e of NavigateTo p \<Rightarrow> Some p | _ \<Rightarrow> None))"

text \<open>\<^verbatim>\<open>d.get(key, default)\<close> and \<^verbatim>\<open>d.get(key)\<close>.\<close>

definition dict_get :: "(string \<rightharpoonup> json) \<Rightarrow> string \<Rightarrow> json \<Rightarrow> json" where
  "dict_get d k dflt = (case d k of None \<Rightarrow> dflt | Some v \<Rightarrow> v)"

subsection \<open>storage.py\<close>

text \<open>
  \<^verbatim>\<open>set_item\<close> does not wait for the browser and never raises. With a key that is
  not plain the statement may fail or touch other entries, so every entry becomes
  unknown.
\<close>

definition set_item :: "string \<Rightarrow> json \<Rightarrow> state \<Rightarrow> state" where
  "set_item key v st =
     (if plain_key key then
        st\<lparr>localStorage := (localStorage st)
             (key \<mapsto> (case js_string v of Some t \<Rightarrow> Text t | None \<Rightarrow> Unknown_text))\<rparr>
      else st\<lparr>localStorage := (\<lambda>k. Some Unknown_text)\<rparr>)"

text \<open>
  \<^verbatim>\<open>await ui.run_javascript('localStorage.getItem("key")')\<close>: the stored string, or
  \<open>None\<close> for JavaScript's \<open>null\<close> when the key is absent.
\<close>

definition run_getItem :: "string \<Rightarrow> state \<Rightarrow> error + json" where
  "run_getItem key st =
     (if plain_key key then
        (case localStorage st key of
           None \<Rightarrow> Inr JNull
         | Some (Text t) \<Rightarrow> Inr (JStr t)
         | Some Unknown_text \<Rightarrow> Inl Unmodelled)
      else Inl Unmodelled)"

definition get_item :: "string \<Rightarrow> state \<Rightarrow> error + json" where
  "get_item key st =
     (case run_getItem key st of
        Inl e \<Rightarrow> Inl e
      | Inr val \<Rightarrow>
          (case py_json_loads val of
             Inr v \<Rightarrow> Inr v
           | Inl (Raised e) \<Rightarrow>
               if e = JSONDecodeError \<or> e = TypeError then Inr val else Inl (Raised e)
           | Inl Unmodelled \<Rightarrow> Inl Unmodelled))"

definition LocalStorage_clear :: "state \<Rightarrow> state" where
  "LocalStorage_clear st = st\<lparr>localStorage := Map.empty\<rparr>"

definition storage_user_clear :: "state \<Rightarrow> state" where
  "storage_user_clear st = st\<lparr>storage_user := Map.empty\<rparr>"

definition storage_tab_clear :: "state \<Rightarrow> state" where
  "storage_tab_clear st = st\<lparr>storage_tab := Map.empty\<rparr>"

definition add_user_to_storage :: "OtfUser \<Rightarrow> state \<Rightarrow> state" where
  "add_user_to_storage u st =
     (let st1 = st\<lparr>storage_user := (storage_user st)(''tokens'' \<mapsto> get_tokens u)\<rparr>;
          st2 = set_item ''device_key'' (device_key u) st1
      in st2\<lparr>storage_tab := (storage_tab st2)(''user'' \<mapsto> UserObj u)\<rparr>)"

definition add_otf_to_storage :: "Otf \<Rightarrow> state \<Rightarrow> state" where
  "add_otf_to_storage otf st =
     (let st1 = st\<lparr>storage_tab := (storage_tab st)(''otf'' \<mapsto> OtfObj otf)\<rparr>;
          st2 = set_item ''device_key'' (device_key (user otf)) st1
      in st2\<lparr>storage_user :=
               (storage_user st2)(''otf_hydration_dict'' \<mapsto> get_hydration_dict otf)\<rparr>)"

definition clear_all_storage :: "state \<Rightarrow> state" where
  "clear_all_storage st =
     (let st1 = storage_user_clear st;
          st2 = storage_tab_clear st1
      in LocalStorage_clear st2)"

text \<open>
  The same three statements with their failure points. The stores are objects of the UI
  toolkit and the browser is cleared through a JavaScript call, so each of the three
  calls can raise; \<open>raises\<close> gives the exception of each call that does, and a call
  that raises leaves its store as it was. The function has no handler: an exception ends
  it, the statements after it do not run, and what was cleared stays cleared. The result
  is the exception, if any, and the state the function leaves. Everywhere else the three
  calls are taken to succeed, which is \<open>clear_all_storage\<close>.
\<close>

datatype tier = UserTier | TabTier | BrowserTier

definition clear_all_storage_raising :: "(tier \<rightharpoonup> exn) \<Rightarrow> state \<Rightarrow> exn option \<times> state" where
  "clear_all_storage_raising raises st =
     (case raises UserTier of
        Some e \<Rightarrow> (Some e, st)
      | None \<Rightarrow>
          (let st1 = storage_user_clear st
           in case raises TabTier of
                Some e \<Rightarrow> (Some e, st1)
              | None \<Rightarrow>
                  (let st2 = storage_tab_clear st1
                   in case raises BrowserTier of
                        Some e \<Rightarrow> (Some e, st2)
                      | None \<Rightarrow> (None, LocalStorage_clear st2))))"

subsection \<open>demo.py: session and credential resolution\<close>

definition logout :: "state \<Rightarrow> state" where
  "logout st = navigate_to (JStr ''/login'') (clear_all_storage st)"

text \<open>
  The \<^verbatim>\<open>except (TokenVerificationException, KeyError)\<close> clause of \<^verbatim>\<open>get_user\<close>:
  notify, then \<^verbatim>\<open>await logout()\<close>. \<^verbatim>\<open>logout()\<close> runs and returns \<open>None\<close>; the
  \<^verbatim>\<open>await\<close> of that result raises inside the handler, so the exception leaves
  \<^verbatim>\<open>get_user\<close>. Were the result awaitable, the function would fall off its end and
  return \<open>None\<close>.
\<close>

definition get_user_except :: "state \<Rightarrow> (error + pyval) \<times> state" where
  "get_user_except st =
     (let st1 = notify ''Your token has expired, please log in again'' ''negative'' st;
          st2 = logout st1
      in case await_value JNull of
           Inl e \<Rightarrow> (Inl (Raised e), st2)
         | Inr r \<Rightarrow> (Inr (Json JNull), st2))"

text \<open>The \<^verbatim>\<open>try\<close> block of \<^verbatim>\<open>get_user\<close> with its handler (lines 56 to 66).\<close>

definition user_from_tokens :: "otf_api \<Rightarrow> state \<Rightarrow> (error + pyval) \<times> state" where
  "user_from_tokens api st =
     (case get_item ''device_key'' st of
        Inl (Raised e) \<Rightarrow>
          if e = TokenVerificationException \<or> e = KeyError then get_user_except st
          else (Inl (Raised e), st)
      | Inl Unmodelled \<Rightarrow> (Inl Unmodelled, st)
      | Inr dk \<Rightarrow>
          (case storage_user st ''tokens'' of
             None \<Rightarrow> get_user_except st
           | Some tokens \<Rightarrow>
               (let st1 = record_event (Call_from_token tokens dk) st
                in case from_token api tokens dk of
                     Inl e \<Rightarrow>
                       if e = TokenVerificationException \<or> e = KeyError then get_user_except st1
                       else (Inl (Raised e), st1)
                   | Inr u \<Rightarrow>
                       (Inr (UserObj u),
                        st1\<lparr>storage_tab := (storage_tab st1)(''user'' \<mapsto> UserObj u)\<rparr>))))"

definition get_user :: "otf_api \<Rightarrow> state \<Rightarrow> (error + pyval) \<times> state" where
  "get_user api st =
     (case storage_tab st ''user'' of
        Some v \<Rightarrow> (Inr v, st)
      | None \<Rightarrow> user_from_tokens api st)"

text \<open>The last tier of \<^verbatim>\<open>get_otf\<close> (lines 36 to 45): a new session from a resolved user.\<close>

definition create_new_otf :: "otf_api \<Rightarrow> state \<Rightarrow> (error + pyval) \<times> state" where
  "create_new_otf api st =
     (case get_user api st of
        (Inl e, st1) \<Rightarrow> (Inl e, st1)
      | (Inr u, st1) \<Rightarrow>
          if truthy u then
            (let st2 = record_event (Call_create u) st1
             in case create api u of
                  Inl e \<Rightarrow> (Inl (Raised e), st2)
                | Inr otf \<Rightarrow> (Inr (OtfObj otf), add_otf_to_storage otf st2))
          else (Inr (Json JNull), navigate_to (JStr ''/login'') st1))"

definition get_otf :: "otf_api \<Rightarrow> state \<Rightarrow> (error + pyval) \<times> state" where
  "get_otf api st =
     (case storage_tab st ''otf'' of
        Some v \<Rightarrow> (Inr v, st)
      | None \<Rightarrow>
          (case (storage_user st ''otf_hydration_dict'', storage_tab st ''device_key'') of
             (Some blob, Some dk) \<Rightarrow>
               (let st1 = record_event (Call_hydrate blob dk) st
                in case hydrate api blob dk of
                     Inl e \<Rightarrow> (Inl (Raised e), st1)
                   | Inr otf \<Rightarrow> (Inr (OtfObj otf), add_otf_to_storage otf st1))
           | _ \<Rightarrow> create_new_otf api st))"

subsection \<open>demo.py: the login handler and the logout buttons\<close>

text \<open>The two \<^verbatim>\<open>except\<close> clauses of \<^verbatim>\<open>try_login\<close>.\<close>

definition try_login_except :: "exn \<Rightarrow> state \<Rightarrow> state" where
  "try_login_except e st =
     (if e = TokenVerificationException then
        (let st1 = notify ''Your token has expired, please log in again'' ''negative'' st
         in st1\<lparr>storage_user := (storage_user st1)(''authenticated'' \<mapsto> JBool False)\<rparr>)
      else notify ''Wrong username or password'' ''negative'' st)"

definition try_login :: "otf_api \<Rightarrow> string \<Rightarrow> string \<Rightarrow> state \<Rightarrow> state" where
  "try_login api username password st =
     (if \<not> truthy_json (dict_get (storage_user st) ''authenticated'' JNull) then
        (let st1 = record_event (Call_login username password) st
         in case login api username password of
              Inl e \<Rightarrow> try_login_except e st1
            | Inr u \<Rightarrow>
                (let st2 = st1\<lparr>storage_user := (storage_user st1)
                                (''username'' \<mapsto> JStr username, ''authenticated'' \<mapsto> JBool True)\<rparr>;
                     st3 = add_user_to_storage u st2
                 in case await_value JNull of
                      Inl e \<Rightarrow> try_login_except e st3
                    | Inr r \<Rightarrow>
                        navigate_to
                          (dict_get (storage_user st3) ''referrer_path'' (JStr ''/upcoming_classes''))
                          st3))
      else st)"

text \<open>
  The footer's button calls \<^verbatim>\<open>logout\<close>. The home page has a logout button of its own:
  \<^verbatim>\<open>on_click=lambda: (app.storage.user.clear(), ui.navigate.to("/login"))\<close>.
\<close>

definition main_page_logout_click :: "state \<Rightarrow> state" where
  "main_page_logout_click st = navigate_to (JStr ''/login'') (storage_user_clear st)"

subsection \<open>demo.py: the rows of the classes table\<close>

text \<open>
  A class record of the client library, through the attributes the page reads. The
  formatting of the start time (\<^verbatim>\<open>strftime\<close>) is a parameter.
\<close>

record datetime =
  year :: nat
  month :: nat
  day :: nat
  hour :: nat
  minute :: nat

record Coach =
  first_name :: json

record Named =
  name :: json

record OtfClass =
  day_of_week :: json
  starts_at_local :: datetime
  duration :: json
  name :: json
  coach :: Coach
  studio :: Named
  class_type :: Named
  is_booked :: bool
  waitlist_available :: bool
  is_home_studio :: bool

definition classes_row :: "(datetime \<Rightarrow> string \<Rightarrow> string) \<Rightarrow> OtfClass \<Rightarrow> (string \<times> json) list" where
  "classes_row strftime cls =
     [(''Day Of Week'', day_of_week cls),
      (''Start Date'', JStr (strftime (starts_at_local cls) ''%Y-%m-%d'')),
      (''Start Time'', JStr (strftime (starts_at_local cls) ''%H:%M'')),
      (''Duration'', duration cls),
      (''Class Name'', OtfClass.name cls),
      (''Coach Name'', first_name (coach cls)),
      (''Studio Name'', Named.name (studio cls)),
      (''Class Type'', Named.name (class_type cls)),
      (''Is Booked'', JBool (is_booked cls)),
      (''Waitlist Available'', JBool (waitlist_available cls)),
      (''Home Studio'', JBool (is_home_studio cls))]"

text \<open>The loop \<^verbatim>\<open>for class_ in classes.classes: rows.append({...})\<close>.\<close>

fun classes_rows ::
  "(datetime \<Rightarrow> string \<Rightarrow> string) \<Rightarrow> (string \<times> json) list list \<Rightarrow> OtfClass list
     \<Rightarrow> (string \<times> json) list list" where
  "classes_rows strftime rows [] = rows"
| "classes_rows strftime rows (cls # cs) =
     classes_rows strftime (rows @ [classes_row strftime cls]) cs"

text \<open>The \<^verbatim>\<open>field\<close> entries of the table's \<^verbatim>\<open>columnDefs\<close>, in order.\<close>

definition classes_columns :: "string list" where
  "classes_columns =
     [''Day Of Week'', ''Start Date'', ''Start Time'', ''Duration'', ''Class Name'', ''Coach Name'',
      ''Studio Name'', ''Class Type'', ''Is Booked'', ''Waitlist Available'', ''Home Studio'']"

section \<open>Reachable states\<close>

text \<open>
  A browser tab starts with an empty tab-scoped store and no effect yet; what the
  user-scoped store and the browser hold from earlier visits is arbitrary. From there the
  state changes by the program's operations: the two resolvers (run by the protected
  pages), the login handler, the two logout buttons and the functions of
  \<^verbatim>\<open>storage.py\<close>. The outcome of a library call may differ from one operation to the
  next. The user-scoped store and the browser's store are shared with other tabs and
  with the session middleware, so they may also change between operations.
\<close>

inductive reachable :: "state \<Rightarrow> bool" where
  fresh_tab: "storage_tab st = Map.empty \<Longrightarrow> events st = [] \<Longrightarrow> reachable st"
| shared_tiers: "reachable st \<Longrightarrow> reachable (st\<lparr>storage_user := u, localStorage := l\<rparr>)"
| op_get_otf: "reachable st \<Longrightarrow> reachable (snd (get_otf api st))"
| op_get_user: "reachable st \<Longrightarrow> reachable (snd (get_user api st))"
| op_try_login: "reachable st \<Longrightarrow> reachable (try_login api username password st)"
| op_logout: "reachable st \<Longrightarrow> reachable (logout st)"
| op_main_page_logout: "reachable st \<Longrightarrow> reachable (main_page_logout_click st)"
| op_add_user: "reachable st \<Longrightarrow> reachable (add_user_to_storage u st)"
| op_add_otf: "reachable st \<Longrightarrow> reachable (add_otf_to_storage otf st)"
| op_clear_all: "reachable st \<Longrightarrow> reachable (clear_all_storage st)"
| op_set_item: "reachable st \<Longrightarrow> reachable (set_item key v st)"
| op_LocalStorage_clear: "reachable st \<Longrightarrow> reachable (LocalStorage_clear st)"

fun is_hydrate :: "event \<Rightarrow> bool" where
  "is_hydrate (Call_hydrate blob dk) = True"
| "is_hydrate _ = False"

text \<open>
  The invariant of the reachable states: the tab-scoped store has no \<^verbatim>\<open>device_key\<close>
  entry, and \<^verbatim>\<open>Otf.hydrate\<close> has never been called.
\<close>

definition tab_invariant :: "state \<Rightarrow> bool" where
  "tab_invariant st = (storage_tab st ''device_key'' = None \<and> filter is_hydrate (events st) = [])"

section \<open>Example values\<close>

text \<open>Concrete users, library behaviours and states, on which the theorems are run.\<close>

definition alice :: OtfUser where
  "alice = \<lparr>get_tokens = JObj [(''id_token'', JStr ''eyJ.id''), (''access_token'', JStr ''eyJ.ac'')],
            device_key = JStr ''dev-1''\<rparr>"

definition alice_otf :: Otf where
  "alice_otf = \<lparr>user = alice, get_hydration_dict = JObj [(''member_uuid'', JStr ''m-1'')]\<rparr>"

text \<open>
  A library that accepts alice's password and nobody else's, rejects every stored token
  as expired, and rebuilds or creates alice's session.
\<close>

definition expired_api :: otf_api where
  "expired_api =
     \<lparr>login = (\<lambda>u p. if u = ''alice'' \<and> p = ''correct'' then Inr alice else Inl OtherException),
      from_token = (\<lambda>t d. Inl TokenVerificationException),
      hydrate = (\<lambda>h d. Inr alice_otf),
      create = (\<lambda>u. Inr alice_otf)\<rparr>"

text \<open>The same library when the stored tokens are still good.\<close>

definition valid_api :: otf_api where
  "valid_api = expired_api\<lparr>from_token := (\<lambda>t d. Inr alice)\<rparr>"

definition fresh_state :: state where
  "fresh_state =
     \<lparr>storage_user = Map.empty, storage_tab = Map.empty, localStorage = Map.empty, events = []\<rparr>"

text \<open>A returning visitor: tokens and a device key from an earlier login, a new tab.\<close>

definition returning_state :: state where
  "returning_state =
     \<lparr>storage_user = [''username'' \<mapsto> JStr ''alice'', ''authenticated'' \<mapsto> JBool True,
                       ''tokens'' \<mapsto> get_tokens alice],
      storage_tab = Map.empty,
      localStorage = [''device_key'' \<mapsto> Text ''dev-1''],
      events = []\<rparr>"

text \<open>The same visitor after the browser's store was emptied.\<close>

definition keyless_state :: state where
  "keyless_state =
     \<lparr>storage_user = [''username'' \<mapsto> JStr ''alice'', ''authenticated'' \<mapsto> JBool True,
                       ''tokens'' \<mapsto> get_tokens alice],
      storage_tab = Map.empty,
      localStorage = Map.empty,
      events = []\<rparr>"

text \<open>A visitor whose user-scoped store has no tokens but remembers a name and a path.\<close>

definition tokenless_state :: state where
  "tokenless_state =
     \<lparr>storage_user = [''username'' \<mapsto> JStr ''alice'', ''referrer_path'' \<mapsto> JStr ''/classes''],
      storage_tab = Map.empty,
      localStorage = [''device_key'' \<mapsto> Text ''dev-1''],
      events = []\<rparr>"

text \<open>
  A state with a hydration blob in the user-scoped store and a device key in the
  tab-scoped store, but no session in the tab.
\<close>

definition hydratable_state :: state where
  "hydratable_state =
     \<lparr>storage_user = [''otf_hydration_dict'' \<mapsto> get_hydration_dict alice_otf],
      storage_tab = [''device_key'' \<mapsto> Json (JStr ''dev-1'')],
      localStorage = Map.empty,
      events = []\<rparr>"

text \<open>A tab with a live session, as after a visit to a protected page.\<close>

definition session_state :: state where
  "session_state =
     \<lparr>storage_user = [''username'' \<mapsto> JStr ''alice'', ''authenticated'' \<mapsto> JBool True,
                       ''tokens'' \<mapsto> get_tokens alice,
                       ''otf_hydration_dict'' \<mapsto> get_hydration_dict alice_otf],
      storage_tab = [''user'' \<mapsto> UserObj alice, ''otf'' \<mapsto> OtfObj alice_otf],
      localStorage = [''device_key'' \<mapsto> Text ''dev-1''],
      events = []\<rparr>"

section \<open>Auxiliary facts\<close>

lemmas storage_defs = add_user_to_storage_def add_otf_to_storage_def clear_all_storage_def
  LocalStorage_clear_def storage_tab_clear_def storage_user_clear_def set_item_def
  record_event_def notify_def navigate_to_def logout_def

lemma plain_device_key [simp]: "plain_key ''device_key''"
  by (simp add: plain_key_def)

lemma active_route_append [simp]:
  "active_route (es @ fs) = (case active_route fs of Some p \<Rightarrow> Some p | None \<Rightarrow> active_route es)"
  by (induction es) (auto split: option.splits)

subsection \<open>The decoder raises nothing but \<open>JSONDecodeError\<close>\<close>

lemma emit_err: "emit b t ps = Inl (Raised e) \<Longrightarrow> e = JSONDecodeError"
  by (auto simp: emit_def split: option.splits)

lemma idle_char_err: "idle_char c ps = Inl (Raised e) \<Longrightarrow> e = JSONDecodeError"
  by (auto simp: idle_char_def split: if_splits dest: emit_err)

lemma end_token_err: "end_token b v c ps = Inl (Raised e) \<Longrightarrow> e = JSONDecodeError"
  by (auto simp: end_token_def split: option.splits sum.splits dest: idle_char_err)

lemma after_integer_err: "after_integer n c ps = Inl (Raised e) \<Longrightarrow> e = JSONDecodeError"
  by (auto simp: after_integer_def split: if_splits dest: end_token_err)

lemma lex_char_err: "lex_char ls c ps = Inl (Raised e) \<Longrightarrow> e = JSONDecodeError"
  by (cases ls)
     (auto simp: Let_def split: if_splits list.splits
           dest: emit_err idle_char_err end_token_err after_integer_err)

lemma finish_err: "finish b v ps = Inl (Raised e) \<Longrightarrow> e = JSONDecodeError"
  by (auto simp: finish_def split: option.splits prod.splits expect.splits)

lemma lex_end_err: "lex_end ls ps = Inl (Raised e) \<Longrightarrow> e = JSONDecodeError"
  by (cases ls) (auto split: prod.splits expect.splits dest: finish_err)

lemma scan_err: "scan b ls ps s = Inl (Raised e) \<Longrightarrow> e = JSONDecodeError"
proof (induction s arbitrary: b ls ps)
  case Nil
  then show ?case by (auto split: sum.splits prod.splits if_splits dest: lex_end_err)
next
  case (Cons c cs)
  then show ?case
    by (auto split: sum.splits prod.splits dest: lex_char_err)
qed

lemma json_loads_err: "json_loads t = Inl (Raised e) \<Longrightarrow> e = JSONDecodeError"
  unfolding json_loads_def by (rule scan_err)

subsection \<open>Reading the browser's store\<close>

lemma get_item_text:
  "plain_key key \<Longrightarrow> localStorage st key = Some (Text t) \<Longrightarrow>
   get_item key st =
     (case json_loads t of
        Inr w \<Rightarrow> Inr w
      | Inl (Raised e) \<Rightarrow> Inr (JStr t)
      | Inl Unmodelled \<Rightarrow> Inl Unmodelled)"
  by (auto simp: get_item_def run_getItem_def split: sum.splits error.splits dest: json_loads_err)

lemma get_item_absent:
  "plain_key key \<Longrightarrow> localStorage st key = None \<Longrightarrow> get_item key st = Inr JNull"
  by (simp add: get_item_def run_getItem_def)

lemma get_item_unknown:
  "localStorage st key = Some Unknown_text \<Longrightarrow> get_item key st = Inl Unmodelled"
  by (simp add: get_item_def run_getItem_def)

lemma get_item_not_plain: "\<not> plain_key key \<Longrightarrow> get_item key st = Inl Unmodelled"
  by (simp add: get_item_def run_getItem_def)

lemma get_item_set_item:
  assumes "plain_key key"
  shows "get_item key (set_item key v st) =
     (case js_string v of
        None \<Rightarrow> Inl Unmodelled
      | Some t \<Rightarrow>
          (case json_loads t of
             Inr w \<Rightarrow> Inr w
           | Inl (Raised e) \<Rightarrow> Inr (JStr t)
           | Inl Unmodelled \<Rightarrow> Inl Unmodelled))"
proof (cases "js_string v")
  case None
  then have "localStorage (set_item key v st) key = Some Unknown_text"
    using assms by (simp add: set_item_def)
  then show ?thesis using None by (simp add: get_item_unknown)
next
  case (Some t)
  then have "localStorage (set_item key v st) key = Some (Text t)"
    using assms by (simp add: set_item_def)
  then show ?thesis using Some assms by (simp add: get_item_text)
qed

subsection \<open>Decimal digits are read back as the number they print\<close>

lemma digit_cases: "k < 10 \<Longrightarrow> k = 0 \<or> k = 1 \<or> k = 2 \<or> k = 3 \<or> k = 4 \<or> k = 5 \<or> k = 6 \<or> k = 7 \<or> k = 8 \<or> k = (9::nat)"
  by arith

lemma digit_val_nth: "k < 10 \<Longrightarrow> digit_val (''0123456789'' ! k) = k"
  using digit_cases [of k] by (auto simp: digit_val_def)

lemma is_digit_nth: "k < 10 \<Longrightarrow> is_digit (''0123456789'' ! k)"
  using digit_cases [of k] by (auto simp: is_digit_def)

lemma nth_zero: "k < 10 \<Longrightarrow> (''0123456789'' ! k = CHR ''0'') = (k = 0)"
  using digit_cases [of k] by auto

lemma digits_nonempty: "digits m \<noteq> []"
  by (induction m rule: digits.induct) (subst digits.simps, simp)

lemma digits_all: "c \<in> set (digits m) \<Longrightarrow> is_digit c"
proof (induction m rule: digits.induct)
  case (1 n)
  show ?case
  proof (cases "n < 10")
    case True
    then have "digits n = [''0123456789'' ! n]"
      by (subst digits.simps) (simp only: if_True)
    with "1.prems" have "c = ''0123456789'' ! n" by (simp only: list.set singleton_iff empty_iff)
    then show ?thesis using True by (simp only: is_digit_nth)
  next
    case False
    then have "digits n = digits (n div 10) @ [''0123456789'' ! (n mod 10)]"
      by (subst digits.simps) (simp only: if_False)
    with "1.prems" have "c \<in> set (digits (n div 10)) \<or> c = ''0123456789'' ! (n mod 10)"
      by (simp only: set_append list.set Un_iff singleton_iff empty_iff insert_iff) blast
    moreover have "is_digit (''0123456789'' ! (n mod 10))" by (rule is_digit_nth) simp
    ultimately show ?thesis using "1.IH" False by blast
  qed
qed

lemma digits_value: "foldl (\<lambda>a c. 10 * a + digit_val c) 0 (digits m) = m"
proof (induction m rule: digits.induct)
  case (1 n)
  show ?case
  proof (cases "n < 10")
    case True
    then show ?thesis by (subst digits.simps) (simp add: digit_val_nth)
  next
    case False
    then show ?thesis using "1.IH" by (subst digits.simps) (simp add: digit_val_nth)
  qed
qed

lemma digits_hd: "0 < m \<Longrightarrow> hd (digits m) \<noteq> CHR ''0''"
proof (induction m rule: digits.induct)
  case (1 n)
  show ?case
  proof (cases "n < 10")
    case True
    then have "hd (digits n) = ''0123456789'' ! n"
      by (subst digits.simps) (simp only: if_True list.sel)
    moreover have "''0123456789'' ! n \<noteq> CHR ''0''"
      using nth_zero [OF True] "1.prems" by blast
    ultimately show ?thesis by metis
  next
    case False
    then have "0 < n div 10" by simp
    then have "hd (digits (n div 10)) \<noteq> CHR ''0''" using "1.IH" False by blast
    moreover have "digits n = digits (n div 10) @ [''0123456789'' ! (n mod 10)]"
      using False by (subst digits.simps) (simp only: if_False)
    ultimately show ?thesis using digits_nonempty [of "n div 10"]
      by (simp only: hd_append2 not_False_eq_True)
  qed
qed

lemma scan_digits:
  "\<forall>c \<in> set ds. is_digit c \<Longrightarrow>
   scan b (LDigits neg a) ps ds = scan b (LDigits neg (foldl (\<lambda>a c. 10 * a + digit_val c) a ds)) ps []"
  by (induction ds arbitrary: a) simp_all

lemma idle_char_digit:
  assumes "is_digit c" and "c \<noteq> CHR ''0''"
  shows "idle_char c ps = Inr (False, LDigits False (digit_val c), ps)"
proof -
  from assms have "c = CHR ''1'' \<or> c = CHR ''2'' \<or> c = CHR ''3'' \<or> c = CHR ''4'' \<or> c = CHR ''5''
      \<or> c = CHR ''6'' \<or> c = CHR ''7'' \<or> c = CHR ''8'' \<or> c = CHR ''9''"
    by (simp add: is_digit_def)
  then show ?thesis
    by (elim disjE) (simp_all add: idle_char_def is_ws_def is_digit_def)
qed

lemma scan_end_top:
  "scan False (LDigits neg n) ([], ExpValue) [] = Inr (JInt (if neg then - int n else int n))"
  by (simp add: finish_def)

lemma scan_after_first:
  assumes "0 < m"
  shows "\<exists>c cs. digits m = c # cs \<and> is_digit c \<and> c \<noteq> CHR ''0''
          \<and> scan False (LDigits neg (digit_val c)) ([], ExpValue) cs
              = Inr (JInt (if neg then - int m else int m))"
proof -
  obtain c cs where d: "digits m = c # cs" using digits_nonempty [of m] by (cases "digits m") auto
  have c0: "c \<noteq> CHR ''0''" using digits_hd [OF assms] d by simp
  have alld: "\<forall>x \<in> set (c # cs). is_digit x" using digits_all [of _ m] d by auto
  then have allcs: "\<forall>x \<in> set cs. is_digit x" by simp
  have "foldl (\<lambda>a c. 10 * a + digit_val c) (digit_val c) cs = m"
    using digits_value [of m] d by simp
  then have "scan False (LDigits neg (digit_val c)) ([], ExpValue) cs
      = Inr (JInt (if neg then - int m else int m))"
    using scan_digits [OF allcs, of False neg "digit_val c" "([], ExpValue)"]
    by (simp only: scan_end_top)
  then show ?thesis using d c0 alld by auto
qed

lemma json_loads_digits: "json_loads (digits m) = Inr (JInt (int m))"
proof (cases "m = 0")
  case True
  then show ?thesis
    by (simp add: json_loads_def digits.simps idle_char_def is_ws_def finish_def)
next
  case False
  then obtain c cs where "digits m = c # cs" "is_digit c" "c \<noteq> CHR ''0''"
    "scan False (LDigits False (digit_val c)) ([], ExpValue) cs = Inr (JInt (int m))"
    using scan_after_first [of m False] by auto
  then show ?thesis by (simp add: json_loads_def idle_char_digit)
qed

lemma json_loads_minus_digits: "0 < m \<Longrightarrow> json_loads (CHR ''-'' # digits m) = Inr (JInt (- int m))"
proof -
  assume "0 < m"
  then obtain c cs where "digits m = c # cs" "is_digit c" "c \<noteq> CHR ''0''"
    "scan False (LDigits True (digit_val c)) ([], ExpValue) cs = Inr (JInt (- int m))"
    using scan_after_first [of m True] by auto
  then show ?thesis by (simp add: json_loads_def idle_char_def is_ws_def)
qed

lemma roundtrip_int:
  assumes "plain_key key" and "\<bar>n\<bar> < 2 ^ 53"
  shows "get_item key (set_item key (JInt n) st) = Inr (JInt n)"
proof (cases "n < 0")
  case True
  have "json_loads (CHR ''-'' # digits (nat \<bar>n\<bar>)) = Inr (JInt n)"
    using True json_loads_minus_digits [of "nat \<bar>n\<bar>"] by simp
  then show ?thesis using True assms by (simp add: get_item_set_item)
next
  case False
  have "json_loads (digits (nat \<bar>n\<bar>)) = Inr (JInt n)"
    using False json_loads_digits [of "nat \<bar>n\<bar>"] by simp
  then show ?thesis using False assms by (simp add: get_item_set_item)
qed

lemma json_loads_null: "json_loads ''null'' = Inr JNull"
  by (simp add: json_loads_def idle_char_def is_ws_def is_digit_def emit_def)
lemma json_loads_true: "json_loads ''true'' = Inr (JBool True)"
  by (simp add: json_loads_def idle_char_def is_ws_def is_digit_def emit_def)
lemma json_loads_false: "json_loads ''false'' = Inr (JBool False)"
  by (simp add: json_loads_def idle_char_def is_ws_def is_digit_def emit_def)

lemma json_loads_dev_1: "json_loads ''dev-1'' = Inl (Raised JSONDecodeError)"
  by (simp add: json_loads_def idle_char_def is_ws_def is_digit_def)

subsection \<open>Resolution without tokens\<close>

lemma get_item_tokenless: "get_item ''device_key'' tokenless_state = Inr (JStr ''dev-1'')"
  by (simp add: get_item_def tokenless_state_def run_getItem_def json_loads_def idle_char_def is_ws_def is_digit_def)

lemma get_user_missing_tokens:
  "storage_tab st ''user'' = None \<Longrightarrow> get_item ''device_key'' st = Inr dk \<Longrightarrow>
   storage_user st ''tokens'' = None \<Longrightarrow> get_user api st = get_user_except st"
  by (simp add: get_user_def user_from_tokens_def)

subsection \<open>Every operation keeps the invariant of the tab-scoped store\<close>

lemma inv_get_user_except: "tab_invariant st \<Longrightarrow> tab_invariant (snd (get_user_except st))"
  by (simp add: tab_invariant_def get_user_except_def storage_defs Let_def)

lemma inv_user_from_tokens: "tab_invariant st \<Longrightarrow> tab_invariant (snd (user_from_tokens api st))"
  by (auto simp: user_from_tokens_def get_user_except_def storage_defs Let_def tab_invariant_def
        split: sum.splits error.splits option.splits)

lemma inv_get_user: "tab_invariant st \<Longrightarrow> tab_invariant (snd (get_user api st))"
  by (auto simp: get_user_def inv_user_from_tokens split: option.splits)

lemma inv_add_otf: "tab_invariant st \<Longrightarrow> tab_invariant (add_otf_to_storage otf st)"
  by (simp add: tab_invariant_def storage_defs Let_def)

lemma inv_add_user: "tab_invariant st \<Longrightarrow> tab_invariant (add_user_to_storage u st)"
  by (simp add: tab_invariant_def storage_defs Let_def)

lemma inv_create_new_otf: "tab_invariant st \<Longrightarrow> tab_invariant (snd (create_new_otf api st))"
proof -
  assume i: "tab_invariant st"
  obtain r st1 where g: "get_user api st = (r, st1)" by (cases "get_user api st")
  with i inv_get_user [of st api] have i1: "tab_invariant st1" by simp
  have i2: "tab_invariant (record_event (Call_create u) st1)" for u
    using i1 by (simp add: tab_invariant_def record_event_def)
  have i3: "tab_invariant (navigate_to p st1)" for p
    using i1 by (simp add: tab_invariant_def storage_defs)
  show ?thesis
    using g i1 i2 i3 inv_add_otf
    by (auto simp: create_new_otf_def Let_def split: sum.splits)
qed

lemma get_otf_no_hydration:
  "storage_tab st ''device_key'' = None \<Longrightarrow>
   get_otf api st = (case storage_tab st ''otf'' of Some v \<Rightarrow> (Inr v, st) | None \<Rightarrow> create_new_otf api st)"
  by (simp add: get_otf_def split: option.splits)

lemma inv_get_otf: "tab_invariant st \<Longrightarrow> tab_invariant (snd (get_otf api st))"
proof -
  assume i: "tab_invariant st"
  then have "storage_tab st ''device_key'' = None" by (simp add: tab_invariant_def)
  then show ?thesis using i inv_create_new_otf [OF i, of api]
    by (simp add: get_otf_no_hydration split: option.splits)
qed

lemma inv_try_login: "tab_invariant st \<Longrightarrow> tab_invariant (try_login api username password st)"
  by (auto simp: try_login_def try_login_except_def tab_invariant_def storage_defs Let_def split: sum.splits)

lemma reachable_tab_invariant: "reachable st \<Longrightarrow> tab_invariant st"
proof (induction rule: reachable.induct)
  case (fresh_tab st)
  then show ?case by (simp add: tab_invariant_def)
next
  case (shared_tiers st u l)
  then show ?case by (simp add: tab_invariant_def)
next
  case (op_get_otf st api)
  then show ?case by (simp add: inv_get_otf)
next
  case (op_get_user st api)
  then show ?case by (simp add: inv_get_user)
next
  case (op_try_login st api username password)
  then show ?case by (simp add: inv_try_login)
next
  case (op_logout st)
  then show ?case by (simp add: tab_invariant_def storage_defs Let_def)
next
  case (op_main_page_logout st)
  then show ?case by (simp add: tab_invariant_def main_page_logout_click_def storage_defs)
next
  case (op_add_user st u)
  then show ?case by (simp add: inv_add_user)
next
  case (op_add_otf st otf)
  then show ?case by (simp add: inv_add_otf)
next
  case (op_clear_all st)
  then show ?case by (simp add: tab_invariant_def storage_defs Let_def)
next
  case (op_set_item st key v)
  then show ?case by (simp add: tab_invariant_def storage_defs)
next
  case (op_LocalStorage_clear st)
  then show ?case by (simp add: tab_invariant_def storage_defs)
qed

subsection \<open>Further facts used below\<close>

lemma classes_rows_append: "classes_rows f rows cs = rows @ map (classes_row f) cs"
  by (induction cs arbitrary: rows) simp_all

lemma get_item_returning: "get_item ''device_key'' returning_state = Inr (JStr ''dev-1'')"
  by (simp add: get_item_def returning_state_def run_getItem_def json_loads_def idle_char_def
        is_ws_def is_digit_def)

text \<open>
  A login that the library rejects with an exception other than
  \<open>TokenVerificationException\<close> changes no store: it only records the call and the
  notification.
\<close>

lemma try_login_rejected:
  assumes "\<not> truthy_json (dict_get (storage_user st) ''authenticated'' JNull)"
    and "login api username password = Inl e"
    and "e \<noteq> TokenVerificationException"
  shows "try_login api username password st =
           st\<lparr>events := events st @ [Call_login username password,
                                     Notify ''Wrong username or password'' ''negative'']\<rparr>"
  using assms by (simp add: try_login_def try_login_except_def storage_defs Let_def)

text \<open>The handler of \<^verbatim>\<open>get_user\<close> ends in the \<open>TypeError\<close> of \<^verbatim>\<open>await logout()\<close>.\<close>

lemma get_user_except_raises: "fst (get_user_except st) = Inl (Raised TypeError)"
  by (simp add: get_user_except_def Let_def)

section \<open>The claims\<close>

subsection \<open>C1: a successful login\<close>

text \<open>
  C1. For a login as "alice" with password "correct" that the library accepts, with the
  user not yet marked authenticated, the handler is claimed to store
  \<^verbatim>\<open>authenticated = true\<close>, \<^verbatim>\<open>username = "alice"\<close> and the token bundle, and then to
  navigate to the stored referrer path or to \<^verbatim>\<open>/upcoming_classes\<close>.

  The code stores all three (and the live user in the tab). It then awaits the result of
  \<^verbatim>\<open>add_user_to_storage\<close>, which is \<open>None\<close>: the \<open>TypeError\<close> is caught by the
  handler's last clause. So for every accepted login the only effects after the library
  call are the notification "Wrong username or password", and the route is the one it was:
  the navigation of line 222 is never reached.
\<close>

theorem try_login_accepted:
  assumes "\<not> truthy_json (dict_get (storage_user st) ''authenticated'' JNull)"
    and "login api username password = Inr u"
  shows "storage_user (try_login api username password st) ''authenticated'' = Some (JBool True)
       \<and> storage_user (try_login api username password st) ''username'' = Some (JStr username)
       \<and> storage_user (try_login api username password st) ''tokens'' = Some (get_tokens u)
       \<and> storage_tab (try_login api username password st) ''user'' = Some (UserObj u)
       \<and> events (try_login api username password st) =
           events st @ [Call_login username password,
                        Notify ''Wrong username or password'' ''negative'']
       \<and> active_route (events (try_login api username password st)) = active_route (events st)"
  using assms by (simp add: try_login_def try_login_except_def storage_defs Let_def)

theorem try_login_accepted_witness:
  "\<not> truthy_json (dict_get (storage_user fresh_state) ''authenticated'' JNull)
   \<and> login expired_api ''alice'' ''correct'' = Inr alice
   \<and> storage_user (try_login expired_api ''alice'' ''correct'' fresh_state) ''authenticated''
       = Some (JBool True)
   \<and> storage_user (try_login expired_api ''alice'' ''correct'' fresh_state) ''username''
       = Some (JStr ''alice'')
   \<and> storage_user (try_login expired_api ''alice'' ''correct'' fresh_state) ''tokens''
       = Some (get_tokens alice)
   \<and> events (try_login expired_api ''alice'' ''correct'' fresh_state) =
         [Call_login ''alice'' ''correct'', Notify ''Wrong username or password'' ''negative'']
   \<and> active_route (events (try_login expired_api ''alice'' ''correct'' fresh_state)) = None"
proof -
  have a: "\<not> truthy_json (dict_get (storage_user fresh_state) ''authenticated'' JNull)"
    by (simp add: fresh_state_def dict_get_def)
  have b: "login expired_api ''alice'' ''correct'' = Inr alice"
    by (simp add: expired_api_def)
  have c: "events fresh_state = []" by (simp add: fresh_state_def)
  show ?thesis using a b c try_login_accepted [OF a b] by simp
qed

subsection \<open>C2: a token-verification failure during user resolution\<close>

text \<open>
  C2. Whenever \<^verbatim>\<open>get_user\<close> meets a token-verification failure (the tab holds no user,
  the device key is read, tokens are stored, and \<^verbatim>\<open>OtfUser.from_token\<close> raises
  \<open>TokenVerificationException\<close>), then afterwards none of the three stores has a key,
  the active route is \<^verbatim>\<open>/login\<close>, the notification was shown, and the library was
  called once: the effects are the one call, the notification and the navigation, in
  that order.
\<close>

theorem get_user_token_verification_failure:
  assumes "storage_tab st ''user'' = None"
    and "get_item ''device_key'' st = Inr dk"
    and "storage_user st ''tokens'' = Some tokens"
    and "from_token api tokens dk = Inl TokenVerificationException"
  shows "dom (storage_user (snd (get_user api st))) = {}
       \<and> dom (storage_tab (snd (get_user api st))) = {}
       \<and> dom (localStorage (snd (get_user api st))) = {}
       \<and> active_route (events (snd (get_user api st))) = Some (JStr ''/login'')
       \<and> events (snd (get_user api st)) =
           events st @ [Call_from_token tokens dk,
                        Notify ''Your token has expired, please log in again'' ''negative'',
                        NavigateTo (JStr ''/login'')]"
  using assms
  by (simp add: get_user_def user_from_tokens_def get_user_except_def storage_defs Let_def)

theorem get_user_token_verification_failure_witness:
  "storage_tab returning_state ''user'' = None
   \<and> get_item ''device_key'' returning_state = Inr (JStr ''dev-1'')
   \<and> storage_user returning_state ''tokens'' = Some (get_tokens alice)
   \<and> from_token expired_api (get_tokens alice) (JStr ''dev-1'') = Inl TokenVerificationException
   \<and> dom (storage_user (snd (get_user expired_api returning_state))) = {}
   \<and> dom (storage_tab (snd (get_user expired_api returning_state))) = {}
   \<and> dom (localStorage (snd (get_user expired_api returning_state))) = {}
   \<and> active_route (events (snd (get_user expired_api returning_state))) = Some (JStr ''/login'')
   \<and> events (snd (get_user expired_api returning_state)) =
        [Call_from_token (get_tokens alice) (JStr ''dev-1''),
         Notify ''Your token has expired, please log in again'' ''negative'',
         NavigateTo (JStr ''/login'')]"
proof -
  have a: "storage_tab returning_state ''user'' = None" by (simp add: returning_state_def)
  have b: "storage_user returning_state ''tokens'' = Some (get_tokens alice)"
    by (simp add: returning_state_def)
  have c: "from_token expired_api (get_tokens alice) (JStr ''dev-1'') = Inl TokenVerificationException"
    by (simp add: expired_api_def)
  have d: "events returning_state = []" by (simp add: returning_state_def)
  show ?thesis
    using a b c d get_item_returning
      get_user_token_verification_failure [OF a get_item_returning b c]
    by simp
qed

subsection \<open>C3: rebuilding a session from the hydration blob\<close>

text \<open>
  C3. If the user-scoped store holds a hydration blob, the tab-scoped store holds a device
  identifier and no session, and \<^verbatim>\<open>Otf.hydrate\<close> rebuilds a session from the two, then
  \<^verbatim>\<open>get_otf\<close> returns that session and has stored it in the tab (the state is the one
  \<^verbatim>\<open>add_otf_to_storage\<close> leaves after the library call); a second \<^verbatim>\<open>get_otf\<close> in the
  tab, whatever the library would answer then, returns the same session and changes
  nothing.
\<close>

theorem get_otf_hydrates_then_serves_from_tab:
  assumes "storage_user st ''otf_hydration_dict'' = Some blob"
    and "storage_tab st ''device_key'' = Some dk"
    and "storage_tab st ''otf'' = None"
    and "hydrate api blob dk = Inr otf"
  shows "fst (get_otf api st) = Inr (OtfObj otf)
       \<and> snd (get_otf api st) = add_otf_to_storage otf (record_event (Call_hydrate blob dk) st)
       \<and> storage_tab (snd (get_otf api st)) ''otf'' = Some (OtfObj otf)
       \<and> get_otf api' (snd (get_otf api st)) = (Inr (OtfObj otf), snd (get_otf api st))"
  using assms by (simp add: get_otf_def storage_defs Let_def)

theorem get_otf_hydrates_then_serves_from_tab_witness:
  "storage_user hydratable_state ''otf_hydration_dict'' = Some (get_hydration_dict alice_otf)
   \<and> storage_tab hydratable_state ''device_key'' = Some (Json (JStr ''dev-1''))
   \<and> storage_tab hydratable_state ''otf'' = None
   \<and> hydrate valid_api (get_hydration_dict alice_otf) (Json (JStr ''dev-1'')) = Inr alice_otf
   \<and> fst (get_otf valid_api hydratable_state) = Inr (OtfObj alice_otf)
   \<and> storage_tab (snd (get_otf valid_api hydratable_state)) ''otf'' = Some (OtfObj alice_otf)
   \<and> get_otf expired_api (snd (get_otf valid_api hydratable_state)) =
        (Inr (OtfObj alice_otf), snd (get_otf valid_api hydratable_state))"
proof -
  have a: "storage_user hydratable_state ''otf_hydration_dict'' = Some (get_hydration_dict alice_otf)"
    by (simp add: hydratable_state_def)
  have b: "storage_tab hydratable_state ''device_key'' = Some (Json (JStr ''dev-1''))"
    by (simp add: hydratable_state_def)
  have c: "storage_tab hydratable_state ''otf'' = None" by (simp add: hydratable_state_def)
  have d: "hydrate valid_api (get_hydration_dict alice_otf) (Json (JStr ''dev-1'')) = Inr alice_otf"
    by (simp add: valid_api_def expired_api_def)
  show ?thesis
    using a b c d get_otf_hydrates_then_serves_from_tab [OF a b c d, of expired_api] by blast
qed

subsection \<open>C4: clearing all storage\<close>

text \<open>
  C4. \<^verbatim>\<open>clear_all_storage\<close> clears the user-scoped store, then the tab-scoped store,
  then the browser's store. The order shows where a call raises: if the first call
  raises, nothing has been cleared; if the second raises, the user-scoped store is empty
  and the other two are as they were; if the third raises, the user-scoped and the
  tab-scoped store are empty and the browser's store is as it was. When no call raises,
  the function completes in the state of \<open>clear_all_storage\<close>, and then a lookup of
  any key in any of the three stores finds nothing: the two server-side stores and the
  browser have no entry for it, and \<^verbatim>\<open>get_item\<close> returns \<open>None\<close> (for every key
  that can be asked for).
\<close>

theorem clear_all_storage_clears_every_tier:
  "clear_all_storage_raising (raises(UserTier \<mapsto> e)) st = (Some e, st)
   \<and> clear_all_storage_raising (raises(UserTier := None, TabTier \<mapsto> e)) st
       = (Some e, st\<lparr>storage_user := Map.empty\<rparr>)
   \<and> clear_all_storage_raising (raises(UserTier := None, TabTier := None, BrowserTier \<mapsto> e)) st
       = (Some e, st\<lparr>storage_user := Map.empty, storage_tab := Map.empty\<rparr>)
   \<and> clear_all_storage_raising Map.empty st = (None, clear_all_storage st)
   \<and> clear_all_storage st
       = st\<lparr>storage_user := Map.empty, storage_tab := Map.empty, localStorage := Map.empty\<rparr>
   \<and> storage_user (clear_all_storage st) key = None
   \<and> storage_tab (clear_all_storage st) key = None
   \<and> localStorage (clear_all_storage st) key = None
   \<and> get_item key (clear_all_storage st) = (if plain_key key then Inr JNull else Inl Unmodelled)"
  by (simp add: clear_all_storage_raising_def clear_all_storage_def LocalStorage_clear_def
        storage_tab_clear_def storage_user_clear_def get_item_def run_getItem_def)

subsection \<open>C5: missing keys in the resolution chain\<close>

text \<open>
  C5 says that at every lookup of the resolution chain a missing key only makes the
  resolution fall through to the next tier, with no storage mutation and no user-facing
  error. That holds for the tab's session, the hydration blob, the tab's device key, the
  tab's user and the browser's device key. It does not hold for the stored tokens: the
  handler of \<^verbatim>\<open>get_user\<close> names \<open>KeyError\<close> next to \<open>TokenVerificationException\<close>,
  so a missing \<^verbatim>\<open>tokens\<close> key is treated as an expired token. Below, a visitor without
  tokens loses the stored user name and the browser's device key and is shown the
  notification.
\<close>

theorem missing_tokens_counterexample:
  "storage_tab tokenless_state ''user'' = None
   \<and> storage_user tokenless_state ''tokens'' = None
   \<and> storage_user tokenless_state ''username'' = Some (JStr ''alice'')
   \<and> storage_user (snd (get_user valid_api tokenless_state)) ''username'' = None
   \<and> localStorage tokenless_state ''device_key'' = Some (Text ''dev-1'')
   \<and> localStorage (snd (get_user valid_api tokenless_state)) ''device_key'' = None
   \<and> events (snd (get_user valid_api tokenless_state)) =
        [Notify ''Your token has expired, please log in again'' ''negative'',
         NavigateTo (JStr ''/login'')]"
proof -
  have a: "storage_tab tokenless_state ''user'' = None" by (simp add: tokenless_state_def)
  have b: "storage_user tokenless_state ''tokens'' = None" by (simp add: tokenless_state_def)
  have g: "get_user valid_api tokenless_state = get_user_except tokenless_state"
    using a get_item_tokenless b by (rule get_user_missing_tokens)
  show ?thesis
    by (simp add: g get_user_except_def storage_defs Let_def) (simp add: tokenless_state_def)
qed

text \<open>
  C5 as amended. A missing tab-scoped \<^verbatim>\<open>otf\<close> together with a missing hydration blob or
  a missing tab-scoped \<^verbatim>\<open>device_key\<close> makes \<^verbatim>\<open>get_otf\<close> continue with its last tier
  from the unchanged state; a missing tab-scoped \<^verbatim>\<open>user\<close> makes \<^verbatim>\<open>get_user\<close> continue
  with the stored tokens from the unchanged state; a missing browser \<^verbatim>\<open>device_key\<close>
  reads as \<open>None\<close> and resolution goes on with it (a user the library accepts then is
  returned and stored in the tab, with no notification). A missing \<^verbatim>\<open>tokens\<close> key is
  handled like an expired token: the notification is shown, all three stores are cleared
  and the browser is sent to \<^verbatim>\<open>/login\<close>.
\<close>

theorem missing_key_falls_through:
  "(storage_tab st ''otf'' = None \<and>
      (storage_user st ''otf_hydration_dict'' = None \<or> storage_tab st ''device_key'' = None)
      \<longrightarrow> get_otf api st = create_new_otf api st)
 \<and> (storage_tab st ''user'' = None \<longrightarrow> get_user api st = user_from_tokens api st)
 \<and> (localStorage st ''device_key'' = None \<longrightarrow> get_item ''device_key'' st = Inr JNull)
 \<and> (storage_tab st ''user'' = None \<and> localStorage st ''device_key'' = None
      \<and> storage_user st ''tokens'' = Some tokens \<and> from_token api tokens JNull = Inr u
      \<longrightarrow> get_user api st =
            (Inr (UserObj u),
             st\<lparr>storage_tab := (storage_tab st)(''user'' \<mapsto> UserObj u),
                events := events st @ [Call_from_token tokens JNull]\<rparr>))
 \<and> (storage_tab st ''user'' = None \<and> get_item ''device_key'' st = Inr dk
      \<and> storage_user st ''tokens'' = None
      \<longrightarrow> dom (storage_user (snd (get_user api st))) = {}
          \<and> dom (storage_tab (snd (get_user api st))) = {}
          \<and> dom (localStorage (snd (get_user api st))) = {}
          \<and> events (snd (get_user api st)) =
                events st @ [Notify ''Your token has expired, please log in again'' ''negative'',
                             NavigateTo (JStr ''/login'')])"
proof (intro conjI impI)
  assume "storage_tab st ''otf'' = None \<and>
      (storage_user st ''otf_hydration_dict'' = None \<or> storage_tab st ''device_key'' = None)"
  then show "get_otf api st = create_new_otf api st"
    by (auto simp: get_otf_def split: option.splits)
next
  assume "storage_tab st ''user'' = None"
  then show "get_user api st = user_from_tokens api st"
    by (simp add: get_user_def)
next
  assume "localStorage st ''device_key'' = None"
  then show "get_item ''device_key'' st = Inr JNull" by (simp add: get_item_absent)
next
  assume "storage_tab st ''user'' = None \<and> localStorage st ''device_key'' = None
      \<and> storage_user st ''tokens'' = Some tokens \<and> from_token api tokens JNull = Inr u"
  then show "get_user api st =
            (Inr (UserObj u),
             st\<lparr>storage_tab := (storage_tab st)(''user'' \<mapsto> UserObj u),
                events := events st @ [Call_from_token tokens JNull]\<rparr>)"
    by (simp add: get_user_def user_from_tokens_def get_item_absent record_event_def Let_def)
next
  assume a: "storage_tab st ''user'' = None \<and> get_item ''device_key'' st = Inr dk
      \<and> storage_user st ''tokens'' = None"
  then have g: "get_user api st = get_user_except st"
    by (simp add: get_user_missing_tokens)
  show "dom (storage_user (snd (get_user api st))) = {}"
    by (simp add: g get_user_except_def storage_defs Let_def)
  show "dom (storage_tab (snd (get_user api st))) = {}"
    by (simp add: g get_user_except_def storage_defs Let_def)
  show "dom (localStorage (snd (get_user api st))) = {}"
    by (simp add: g get_user_except_def storage_defs Let_def)
  show "events (snd (get_user api st)) =
                events st @ [Notify ''Your token has expired, please log in again'' ''negative'',
                             NavigateTo (JStr ''/login'')]"
    by (simp add: g get_user_except_def storage_defs Let_def)
qed

theorem missing_key_falls_through_witness:
  "storage_tab fresh_state ''otf'' = None
   \<and> storage_user fresh_state ''otf_hydration_dict'' = None
   \<and> get_otf valid_api fresh_state = create_new_otf valid_api fresh_state
   \<and> storage_tab fresh_state ''user'' = None
   \<and> get_user valid_api fresh_state = user_from_tokens valid_api fresh_state
   \<and> localStorage fresh_state ''device_key'' = None
   \<and> get_item ''device_key'' fresh_state = Inr JNull
   \<and> storage_tab keyless_state ''user'' = None
   \<and> localStorage keyless_state ''device_key'' = None
   \<and> storage_user keyless_state ''tokens'' = Some (get_tokens alice)
   \<and> from_token valid_api (get_tokens alice) JNull = Inr alice
   \<and> fst (get_user valid_api keyless_state) = Inr (UserObj alice)
   \<and> storage_tab tokenless_state ''user'' = None
   \<and> get_item ''device_key'' tokenless_state = Inr (JStr ''dev-1'')
   \<and> storage_user tokenless_state ''tokens'' = None
   \<and> dom (storage_user (snd (get_user valid_api tokenless_state))) = {}
   \<and> dom (storage_tab (snd (get_user valid_api tokenless_state))) = {}
   \<and> dom (localStorage (snd (get_user valid_api tokenless_state))) = {}"
proof -
  have f1: "storage_tab fresh_state ''otf'' = None" by (simp add: fresh_state_def)
  have f2: "storage_user fresh_state ''otf_hydration_dict'' = None" by (simp add: fresh_state_def)
  have f3: "storage_tab fresh_state ''user'' = None" by (simp add: fresh_state_def)
  have f4: "localStorage fresh_state ''device_key'' = None" by (simp add: fresh_state_def)
  have r1: "storage_tab keyless_state ''user'' = None" by (simp add: keyless_state_def)
  have r2: "localStorage keyless_state ''device_key'' = None" by (simp add: keyless_state_def)
  have r3: "storage_user keyless_state ''tokens'' = Some (get_tokens alice)"
    by (simp add: keyless_state_def)
  have r4: "from_token valid_api (get_tokens alice) JNull = Inr alice" by (simp add: valid_api_def)
  have t1: "storage_tab tokenless_state ''user'' = None" by (simp add: tokenless_state_def)
  have t3: "storage_user tokenless_state ''tokens'' = None" by (simp add: tokenless_state_def)
  note fresh = missing_key_falls_through [where st = fresh_state and api = valid_api]
  note ret = missing_key_falls_through
    [where st = keyless_state and api = valid_api and tokens = "get_tokens alice" and u = alice]
  note tok = missing_key_falls_through
    [where st = tokenless_state and api = valid_api and dk = "JStr ''dev-1''"]
  have c1: "get_otf valid_api fresh_state = create_new_otf valid_api fresh_state"
    using fresh f1 f2 by blast
  have c2: "get_user valid_api fresh_state = user_from_tokens valid_api fresh_state"
    using fresh f3 by blast
  have c3: "get_item ''device_key'' fresh_state = Inr JNull"
    using fresh f4 by blast
  have "get_user valid_api keyless_state =
          (Inr (UserObj alice),
           keyless_state\<lparr>storage_tab := (storage_tab keyless_state)(''user'' \<mapsto> UserObj alice),
             events := events keyless_state @ [Call_from_token (get_tokens alice) JNull]\<rparr>)"
    using ret r1 r2 r3 r4 by blast
  then have c4: "fst (get_user valid_api keyless_state) = Inr (UserObj alice)"
    by (simp only: fst_conv)
  have c5: "dom (storage_user (snd (get_user valid_api tokenless_state))) = {}
     \<and> dom (storage_tab (snd (get_user valid_api tokenless_state))) = {}
     \<and> dom (localStorage (snd (get_user valid_api tokenless_state))) = {}"
    using tok t1 get_item_tokenless t3 by blast
  show ?thesis
    using f1 f2 f3 f4 r1 r2 r3 r4 t1 t3 get_item_tokenless c1 c2 c3 c4 c5 by blast
qed

subsection \<open>C6: the logout buttons\<close>

text \<open>
  C6 says that every logout the UI offers clears all three stores. The footer's button
  calls \<^verbatim>\<open>logout\<close>, which does. The home page's own logout button clears the
  user-scoped store only: the tab-scoped store and the browser's store keep what they
  held. On a tab with a live session, the session and the device key survive that logout,
  and the next \<^verbatim>\<open>get_otf\<close> serves the old session from the tab.
\<close>

theorem main_page_logout_click_partial:
  "storage_user (main_page_logout_click st) = Map.empty
   \<and> storage_tab (main_page_logout_click st) = storage_tab st
   \<and> localStorage (main_page_logout_click st) = localStorage st
   \<and> storage_tab (main_page_logout_click session_state) ''otf'' = Some (OtfObj alice_otf)
   \<and> localStorage (main_page_logout_click session_state) ''device_key'' = Some (Text ''dev-1'')
   \<and> get_otf api (main_page_logout_click session_state) =
        (Inr (OtfObj alice_otf), main_page_logout_click session_state)"
  by (simp add: main_page_logout_click_def storage_defs session_state_def get_otf_def)

subsection \<open>C7: exceptions in the login handler\<close>

text \<open>
  C7 says that when the login handler raises an exception other than a token-verification
  failure, the exception is caught, the generic notification is shown and no store is
  changed. Where the library rejects the login this is so (\<open>try_login_rejected\<close>). But
  the handler also raises on every accepted login: the \<open>TypeError\<close> of
  \<^verbatim>\<open>await add_user_to_storage(user)\<close> comes after the writes. Below, alice's accepted
  login ends with the generic notification, and all three stores have changed.
\<close>

theorem try_login_type_error_after_writes:
  "await_value JNull = Inl TypeError
   \<and> storage_user fresh_state ''tokens'' = None
   \<and> storage_user (try_login expired_api ''alice'' ''correct'' fresh_state) ''tokens''
       = Some (get_tokens alice)
   \<and> storage_tab fresh_state ''user'' = None
   \<and> storage_tab (try_login expired_api ''alice'' ''correct'' fresh_state) ''user''
       = Some (UserObj alice)
   \<and> localStorage fresh_state ''device_key'' = None
   \<and> localStorage (try_login expired_api ''alice'' ''correct'' fresh_state) ''device_key''
       = Some (Text ''dev-1'')
   \<and> events (try_login expired_api ''alice'' ''correct'' fresh_state) =
         [Call_login ''alice'' ''correct'', Notify ''Wrong username or password'' ''negative'']"
  by (simp add: try_login_def try_login_except_def storage_defs Let_def fresh_state_def
        expired_api_def dict_get_def alice_def)

subsection \<open>C8: the rows of the classes table\<close>

text \<open>
  C8. For a list of N class records the loop of the classes page produces N rows; the
  keys of every row are the eleven fields of the table's columns, in order and without
  repetition; and the \<^verbatim>\<open>Is Booked\<close> and \<^verbatim>\<open>Waitlist Available\<close> entries of the i-th
  row are the booleans \<^verbatim>\<open>is_booked\<close> and \<^verbatim>\<open>waitlist_available\<close> of the i-th record.
\<close>

theorem classes_rows_shape:
  "length (classes_rows strftime [] cs) = length cs
   \<and> map (map fst) (classes_rows strftime [] cs) = replicate (length cs) classes_columns
   \<and> length classes_columns = 11
   \<and> distinct classes_columns
   \<and> map (\<lambda>row. map_of row ''Is Booked'') (classes_rows strftime [] cs)
       = map (\<lambda>c. Some (JBool (is_booked c))) cs
   \<and> map (\<lambda>row. map_of row ''Waitlist Available'') (classes_rows strftime [] cs)
       = map (\<lambda>c. Some (JBool (waitlist_available c))) cs"
proof (intro conjI)
  show "length (classes_rows strftime [] cs) = length cs"
    by (simp add: classes_rows_append)
  show "map (map fst) (classes_rows strftime [] cs) = replicate (length cs) classes_columns"
    by (simp add: classes_rows_append classes_row_def classes_columns_def comp_def
          map_replicate_const [symmetric])
  show "length classes_columns = 11" by (simp add: classes_columns_def)
  show "distinct classes_columns" by (simp add: classes_columns_def)
  show "map (\<lambda>row. map_of row ''Is Booked'') (classes_rows strftime [] cs)
       = map (\<lambda>c. Some (JBool (is_booked c))) cs"
    by (simp add: classes_rows_append classes_row_def comp_def)
  show "map (\<lambda>row. map_of row ''Waitlist Available'') (classes_rows strftime [] cs)
       = map (\<lambda>c. Some (JBool (waitlist_available c))) cs"
    by (simp add: classes_rows_append classes_row_def comp_def)
qed

subsection \<open>C9: reading back what was written to the browser\<close>

text \<open>
  C9 says that \<^verbatim>\<open>get_item\<close> decodes best-effort and that, consequently, a value written
  with \<^verbatim>\<open>set_item\<close> is read back unchanged, for every JSON-serializable value. The first
  half holds; the second does not. The browser stores a string without its quotes, so a
  string whose text is itself JSON is decoded on the way back: the device key
  \<^verbatim>\<open>"123"\<close> is read back as the integer 123.
\<close>

theorem set_item_get_item_counterexample:
  "get_item ''device_key'' (set_item ''device_key'' (JStr ''123'') fresh_state) = Inr (JInt 123)
   \<and> JInt 123 \<noteq> JStr ''123''"
  by (simp add: get_item_def set_item_def run_getItem_def json_loads_def idle_char_def
        finish_def is_digit_def is_ws_def digit_val_def)

text \<open>
  C9 as amended, for a key without double quote, backslash or line break.
  \<^verbatim>\<open>get_item\<close> returns \<open>None\<close> for an absent key, the decoded value when the
  stored text parses as JSON, and the stored text itself when \<^verbatim>\<open>json.loads\<close> refuses
  it. After \<^verbatim>\<open>set_item(k, v)\<close> the stored text is JavaScript's string form of \<open>v\<close>,
  and \<^verbatim>\<open>get_item(k)\<close> returns the decoding of that text. This is \<open>v\<close> again for
  \<open>None\<close>, for the booleans, for the integers below \<open>2 ^ 53\<close> in magnitude, and for
  every string that \<^verbatim>\<open>json.loads\<close> refuses; a string that \<^verbatim>\<open>json.loads\<close> accepts
  comes back as the value it denotes.
\<close>

theorem get_item_best_effort:
  assumes "plain_key key"
  shows "(localStorage st key = None \<longrightarrow> get_item key st = Inr JNull)
 \<and> (localStorage st key = Some (Text t) \<longrightarrow>
      get_item key st =
        (case json_loads t of
           Inr w \<Rightarrow> Inr w
         | Inl (Raised e) \<Rightarrow> Inr (JStr t)
         | Inl Unmodelled \<Rightarrow> Inl Unmodelled))
 \<and> get_item key (set_item key v st) =
      (case js_string v of
         None \<Rightarrow> Inl Unmodelled
       | Some t' \<Rightarrow>
           (case json_loads t' of
              Inr w \<Rightarrow> Inr w
            | Inl (Raised e) \<Rightarrow> Inr (JStr t')
            | Inl Unmodelled \<Rightarrow> Inl Unmodelled))
 \<and> get_item key (set_item key JNull st) = Inr JNull
 \<and> get_item key (set_item key (JBool b) st) = Inr (JBool b)
 \<and> (\<bar>n\<bar> < 2 ^ 53 \<longrightarrow> get_item key (set_item key (JInt n) st) = Inr (JInt n))
 \<and> (json_loads s = Inl (Raised JSONDecodeError) \<longrightarrow>
      get_item key (set_item key (JStr s) st) = Inr (JStr s))
 \<and> (json_loads s = Inr w' \<longrightarrow> get_item key (set_item key (JStr s) st) = Inr w')"
proof (intro conjI impI)
  show "get_item key (set_item key JNull st) = Inr JNull"
    using assms by (simp add: get_item_set_item json_loads_null)
  show "get_item key (set_item key (JBool b) st) = Inr (JBool b)"
    using assms by (simp add: get_item_set_item json_loads_true json_loads_false)
  show "get_item key (set_item key (JStr s) st) = Inr (JStr s)"
    if "json_loads s = Inl (Raised JSONDecodeError)"
    using that assms by (simp add: get_item_set_item)
  show "get_item key (set_item key (JStr s) st) = Inr w'" if "json_loads s = Inr w'"
    using that assms by (simp add: get_item_set_item)
  show "get_item key (set_item key (JInt n) st) = Inr (JInt n)" if "\<bar>n\<bar> < 2 ^ 53"
    using assms that by (rule roundtrip_int)
  show "get_item key st = Inr JNull" if "localStorage st key = None"
    using assms that by (rule get_item_absent)
  show "get_item key st =
        (case json_loads t of
           Inr w \<Rightarrow> Inr w
         | Inl (Raised e) \<Rightarrow> Inr (JStr t)
         | Inl Unmodelled \<Rightarrow> Inl Unmodelled)"
    if "localStorage st key = Some (Text t)"
    using assms that by (rule get_item_text)
  show "get_item key (set_item key v st) =
      (case js_string v of
         None \<Rightarrow> Inl Unmodelled
       | Some t' \<Rightarrow>
           (case json_loads t' of
              Inr w \<Rightarrow> Inr w
            | Inl (Raised e) \<Rightarrow> Inr (JStr t')
            | Inl Unmodelled \<Rightarrow> Inl Unmodelled))"
    using assms by (rule get_item_set_item)
qed

theorem get_item_best_effort_witness:
  "plain_key ''device_key''
   \<and> localStorage fresh_state ''device_key'' = None
   \<and> get_item ''device_key'' fresh_state = Inr JNull
   \<and> localStorage returning_state ''device_key'' = Some (Text ''dev-1'')
   \<and> json_loads ''dev-1'' = Inl (Raised JSONDecodeError)
   \<and> get_item ''device_key'' returning_state = Inr (JStr ''dev-1'')
   \<and> \<bar>42 :: int\<bar> < 2 ^ 53
   \<and> get_item ''device_key'' (set_item ''device_key'' (JInt 42) fresh_state) = Inr (JInt 42)
   \<and> json_loads ''Nope'' = Inl (Raised JSONDecodeError)
   \<and> get_item ''device_key'' (set_item ''device_key'' (JStr ''Nope'') fresh_state)
       = Inr (JStr ''Nope'')
   \<and> json_loads ''3e4f'' = Inl (Raised JSONDecodeError)
   \<and> get_item ''device_key'' (set_item ''device_key'' (JStr ''3e4f'') fresh_state)
       = Inr (JStr ''3e4f'')
   \<and> json_loads ''true'' = Inr (JBool True)
   \<and> get_item ''device_key'' (set_item ''device_key'' (JStr ''true'') fresh_state)
       = Inr (JBool True)"
proof -
  have p: "plain_key ''device_key''" by simp
  have a: "localStorage fresh_state ''device_key'' = None" by (simp add: fresh_state_def)
  have b: "localStorage returning_state ''device_key'' = Some (Text ''dev-1'')"
    by (simp add: returning_state_def)
  have c: "json_loads ''dev-1'' = Inl (Raised JSONDecodeError)" by (rule json_loads_dev_1)
  have c1: "json_loads ''Nope'' = Inl (Raised JSONDecodeError)"
    by (simp add: json_loads_def idle_char_def is_ws_def is_digit_def)
  have c2: "json_loads ''3e4f'' = Inl (Raised JSONDecodeError)"
    by (simp add: json_loads_def idle_char_def after_integer_def end_token_def is_ws_def
          is_digit_def)
  have d: "\<bar>42 :: int\<bar> < 2 ^ 53" by simp
  note fresh = get_item_best_effort [OF p, where st = fresh_state and n = 42]
  note ret = get_item_best_effort [OF p, where st = returning_state and t = "''dev-1''"]
  have e: "get_item ''device_key'' fresh_state = Inr JNull" using fresh a by blast
  have f: "get_item ''device_key'' returning_state = Inr (JStr ''dev-1'')"
    using ret b c by simp
  have g: "get_item ''device_key'' (set_item ''device_key'' (JInt 42) fresh_state) = Inr (JInt 42)"
    using fresh d by blast
  have h1: "get_item ''device_key'' (set_item ''device_key'' (JStr ''Nope'') fresh_state)
       = Inr (JStr ''Nope'')"
    using get_item_best_effort [OF p, where st = fresh_state and s = "''Nope''"] c1 by blast
  have h2: "get_item ''device_key'' (set_item ''device_key'' (JStr ''3e4f'') fresh_state)
       = Inr (JStr ''3e4f'')"
    using get_item_best_effort [OF p, where st = fresh_state and s = "''3e4f''"] c2 by blast
  have h3: "get_item ''device_key'' (set_item ''device_key'' (JStr ''true'') fresh_state)
       = Inr (JBool True)"
    using get_item_best_effort
      [OF p, where st = fresh_state and s = "''true''" and w' = "JBool True"]
      json_loads_true by blast
  show ?thesis using p a b c c1 c2 d e f g h1 h2 h3 json_loads_true by blast
qed

subsection \<open>C10: the tab-scoped store never holds a device key\<close>

text \<open>
  C10. No operation of the program writes the key \<^verbatim>\<open>device_key\<close> into the tab-scoped
  store. So in every reachable state the tab-scoped store has no \<^verbatim>\<open>device_key\<close> entry
  and \<^verbatim>\<open>Otf.hydrate\<close> has never been called; from such a state \<^verbatim>\<open>get_otf\<close> either
  serves the tab's session or goes to its last tier, never through the hydration branch,
  and the state it leaves has the same two properties.
\<close>

theorem tab_device_key_never_written:
  assumes "reachable st"
  shows "storage_tab st ''device_key'' = None
       \<and> filter is_hydrate (events st) = []
       \<and> get_otf api st =
            (case storage_tab st ''otf'' of
               Some v \<Rightarrow> (Inr v, st)
             | None \<Rightarrow> create_new_otf api st)
       \<and> storage_tab (snd (get_otf api st)) ''device_key'' = None
       \<and> filter is_hydrate (events (snd (get_otf api st))) = []"
proof -
  have i: "tab_invariant st" using assms by (rule reachable_tab_invariant)
  have j: "tab_invariant (snd (get_otf api st))" using i by (rule inv_get_otf)
  show ?thesis using i j by (simp add: tab_invariant_def get_otf_no_hydration)
qed

theorem tab_device_key_never_written_witness:
  "reachable (try_login expired_api ''alice'' ''correct'' fresh_state)
   \<and> storage_tab (try_login expired_api ''alice'' ''correct'' fresh_state) ''device_key'' = None
   \<and> filter is_hydrate (events (try_login expired_api ''alice'' ''correct'' fresh_state)) = []
   \<and> storage_tab (snd (get_otf valid_api (try_login expired_api ''alice'' ''correct'' fresh_state)))
        ''device_key'' = None
   \<and> filter is_hydrate
        (events (snd (get_otf valid_api (try_login expired_api ''alice'' ''correct'' fresh_state))))
        = []"
proof -
  have "reachable fresh_state"
    by (rule reachable.fresh_tab) (simp_all add: fresh_state_def)
  then have r: "reachable (try_login expired_api ''alice'' ''correct'' fresh_state)"
    by (rule reachable.op_try_login)
  show ?thesis using r tab_device_key_never_written [OF r, of valid_api] by blast
qed

end
